theory Spec2Isabelle
  imports Complex_Main "HOL-Library.Sublist" "HOL-Library.Word" "HOL-Library.Code_Target_Numeral"
begin

unbundle bit_operations_syntax

section \<open>The regulatory monitor (api/cron/monitor.ts)\<close>

text \<open>
  The monitor is one serverless function, \<open>handler\<close>, with three helpers:
  \<open>checkSource\<close> (the pipeline of one source), \<open>saveSnapshot\<close> and \<open>analyzeDiff\<close>.
  Everything it does is an exchange with a collaborator: the page server (\<open>fetch\<close>),
  the relational store (the supabase client) and the analysis service (the openai client).
  The embedding passes the store explicitly (\<open>world\<close>), takes every answer of a
  collaborator from an environment record, and keeps a log of the calls made, so that
  "no analysis was requested" or "nothing was written" are statements about the log.

  A JavaScript string is modelled as a \<open>string\<close>, one \<open>char\<close> for one UTF-16 code
  unit: the functions below only count, compare, cut and join code units
  (\<open>.length\<close>, \<open>===\<close>, \<open>.substring\<close>, template literals).
\<close>

subsection \<open>Values of the analysis service: parsed JSON\<close>

datatype json =
    JNull
  | JBool bool
  | JNum rat
  | JStr string
  | JArr "json list"
  | JObj "(string \<times> json) list"

text \<open>JavaScript truthiness of a parsed JSON value; \<open>undefined\<close> is \<open>None\<close> below.\<close>

fun truthy :: "json \<Rightarrow> bool" where
  "truthy JNull = False"
| "truthy (JBool b) = b"
| "truthy (JNum q) = (q \<noteq> 0)"
| "truthy (JStr s) = (s \<noteq> [])"
| "truthy (JArr xs) = True"
| "truthy (JObj kvs) = True"

text \<open>
  \<open>analysis.summary\<close> and the like, on a value that is not \<open>null\<close>: an object gives
  the member or \<open>undefined\<close>; a boolean, number, string or array has none of the five
  members read by \<open>analyzeDiff\<close>. (Reading a member of \<open>null\<close> throws; \<open>analyzeDiff\<close>
  handles that case before it reads.) The members of an object are listed in the order of
  the text; of a name written more than once, \<open>JSON.parse\<close> keeps the last.
\<close>

fun member :: "json \<Rightarrow> string \<Rightarrow> json option" where
  "member (JObj kvs) k = map_of (rev kvs) k"
| "member v k = None"

text \<open>\<open>x || d\<close> for a possibly undefined \<open>x\<close>.\<close>

definition js_or :: "json option \<Rightarrow> json \<Rightarrow> json" where
  "js_or x d = (case x of None \<Rightarrow> d | Some v \<Rightarrow> if truthy v then v else d)"

subsection \<open>Rows and payloads\<close>

record source =
  src_id :: string
  src_name :: string
  src_url :: string
  source_type :: string

text \<open>The columns an insert into \<open>snapshots\<close> supplies.\<close>

record snapshot_values =
  source_id :: string
  raw_html :: string
  raw_hash :: string
  fetch_status :: string
  error_message :: "string option"
  http_status :: "nat option"

text \<open>A stored row: the store adds the key and the fetch time.\<close>

record snapshot =
  snap_id :: string
  snap_source_id :: string
  snap_html :: string
  snap_hash :: string
  snap_status :: string
  snap_error :: "string option"
  snap_http :: "nat option"
  fetched_at :: nat

record change_event_values =
  ev_source_id :: string
  snapshot_before_id :: "string option"
  snapshot_after_id :: string
  change_summary :: json
  ev_tags :: json
  ev_status :: json
  effective_date :: json
  needs_review :: bool

record change_event =
  ev_id :: string
  ev_values :: change_event_values
  detected_at :: nat

record analysis_result =
  summary :: json
  tags :: json
  status :: json
  effectiveDate :: json
  needsReview :: bool

text \<open>
  The holes of the prompt template of \<open>analyzeDiff\<close>: the source's name and address, the
  two lengths, the new content as cut, and the previous content as cut (\<open>None\<close> when
  the template takes its "first fetch" branch).
\<close>

record analysis_request =
  req_name :: string
  req_url :: string
  req_old_length :: nat
  req_new_length :: nat
  req_new_content :: string
  req_previous_content :: "string option"

text \<open>One entry of the run report.\<close>

record source_result =
  res_source :: string
  res_status :: string
  res_httpStatus :: "nat option"
  res_summary :: "json option"
  res_error :: "string option"

subsection \<open>The world: tables and the log of calls\<close>

datatype call =
    ListActiveSources
  | FetchUrl string
  | SelectLatestSnapshot string
  | InsertSnapshot snapshot_values
  | CreateCompletion analysis_request
  | InsertChangeEvent change_event_values

record world =
  sources :: "(source \<times> bool) list"
  snapshots :: "snapshot list"
  change_events :: "change_event list"
  calls :: "call list"

definition log_call :: "call \<Rightarrow> world \<Rightarrow> world" where
  "log_call c w = w\<lparr>calls := calls w @ [c]\<rparr>"

subsection \<open>Answers of the collaborators\<close>

datatype text_reply = TextThrows string | TextOk string

text \<open>\<open>fetch\<close> rejects, or resolves to a response with a status and a body.\<close>

datatype fetch_reply = FetchThrows string | FetchResponse nat text_reply

text \<open>
  The store client does not throw: an insert resolves to \<open>{data, error}\<close>, with
  \<open>data = null\<close> on an error. On success the store has chosen the row's key and time.
\<close>

datatype db_reply = DbError string | DbInserted string nat

text \<open>
  \<open>LlmThrows\<close>: \<open>openai.chat.completions.create\<close> rejects, or reading
  \<open>completion.choices[0].message.content\<close> throws. \<open>LlmCompletion c\<close>: that content,
  \<open>None\<close> for \<open>null\<close>.
\<close>

datatype llm_reply = LlmThrows string | LlmCompletion "string option"

record src_env =
  fetch_answer :: fetch_reply
  select_fails :: bool
  snapshot_insert_answer :: db_reply
  error_insert_answer :: db_reply
  llm_answer :: llm_reply
  event_insert_answer :: db_reply

text \<open>
  \<open>JSON.parse\<close> is a parameter of the functions below, of type
  \<open>string \<Rightarrow> string + json\<close>: \<open>Inl\<close> is the SyntaxError it throws.
\<close>

subsection \<open>The fingerprint: SHA-256 in hexadecimal\<close>

text \<open>
  \<open>crypto.createHash('sha256').update(rawHtml).digest('hex')\<close>: the string is encoded
  in UTF-8 (one byte below code unit 128, two bytes from there to 255), padded, hashed
  block by block as FIPS 180-4 prescribes, and the eight words of the state are printed
  as 64 lower-case hexadecimal digits.
\<close>

type_synonym u32 = "32 word"
type_synonym byte = "8 word"

text \<open>
  The constants of the standard are given by their rule: the first 32 bits of the
  fractional parts of the cube roots of the first 64 primes, and (for the initial state)
  of the square roots of the first 8 primes. \<open>floor_root k n\<close> is the integer part of the
  \<open>k\<close>-th root of \<open>n\<close>, found bit by bit below \<open>2 ^ 40\<close>; \<open>first_primes\<close> are the
  primes below 312, which are the first 64.
\<close>

definition floor_root :: "nat \<Rightarrow> nat \<Rightarrow> nat" where
  "floor_root k n = fold (\<lambda>b r. if (r + 2 ^ b) ^ k \<le> n then r + 2 ^ b else r) (rev [0..<40]) 0"

definition root_bits :: "nat \<Rightarrow> nat \<Rightarrow> u32" where
  "root_bits k p = of_nat (floor_root k (p * 2 ^ (32 * k)))"

definition first_primes :: "nat list" where
  "first_primes = filter (\<lambda>p. list_all (\<lambda>d. p mod d \<noteq> 0) [2..<p]) [2..<312]"

definition K256 :: "u32 list" where
  "K256 = map (root_bits 3) first_primes"

type_synonym sha_state = "u32 \<times> u32 \<times> u32 \<times> u32 \<times> u32 \<times> u32 \<times> u32 \<times> u32"

definition sha_init :: sha_state where
  "sha_init =
     (root_bits 2 2, root_bits 2 3, root_bits 2 5, root_bits 2 7,
      root_bits 2 11, root_bits 2 13, root_bits 2 17, root_bits 2 19)"

definition utf8 :: "string \<Rightarrow> byte list" where
  "utf8 s =
     concat (map (\<lambda>c. let n = (of_char c :: nat)
                       in if n < 128 then [of_nat n]
                          else [of_nat (192 + n div 64), of_nat (128 + n mod 64)]) s)"

definition sha_pad :: "byte list \<Rightarrow> byte list" where
  "sha_pad m =
     m @ [0x80] @ replicate ((119 - length m mod 64) mod 64) 0
       @ map (\<lambda>i. ucast (drop_bit (8 * (7 - i)) (of_nat (8 * length m) :: 64 word))) [0..<8]"

definition be32 :: "byte list \<Rightarrow> u32" where
  "be32 bs = fold (\<lambda>b acc. push_bit 8 acc OR ucast b) bs 0"

definition block_words :: "byte list \<Rightarrow> u32 list" where
  "block_words blk = map (\<lambda>j. be32 (take 4 (drop (4 * j) blk))) [0..<16]"

text \<open>
  The message schedule: from the 16 words of a block to 64 words. At step \<open>t\<close> the list
  holds \<open>t\<close> words, so the four words read are there.
\<close>

definition schedule :: "u32 list \<Rightarrow> u32 list" where
  "schedule ws =
     fold (\<lambda>t w. w @ [(word_rotr 17 (w ! (t - 2)) XOR word_rotr 19 (w ! (t - 2)) XOR drop_bit 10 (w ! (t - 2)))
                        + w ! (t - 7)
                        + (word_rotr 7 (w ! (t - 15)) XOR word_rotr 18 (w ! (t - 15)) XOR drop_bit 3 (w ! (t - 15)))
                        + w ! (t - 16)])
          [16..<64] ws"

fun sha_round :: "u32 list \<Rightarrow> nat \<Rightarrow> sha_state \<Rightarrow> sha_state" where
  "sha_round w t (a, b, c, d, e, f, g, h) =
     (let t1 = h + (word_rotr 6 e XOR word_rotr 11 e XOR word_rotr 25 e)
                 + ((e AND f) XOR (NOT e AND g)) + K256 ! t + w ! t;
          t2 = (word_rotr 2 a XOR word_rotr 13 a XOR word_rotr 22 a)
                 + ((a AND b) XOR (a AND c) XOR (b AND c))
      in (t1 + t2, a, b, c, d + t1, e, f, g))"

fun sha_add :: "sha_state \<Rightarrow> sha_state \<Rightarrow> sha_state" where
  "sha_add (a, b, c, d, e, f, g, h) (a', b', c', d', e', f', g', h') =
     (a + a', b + b', c + c', d + d', e + e', f + f', g + g', h + h')"

definition sha_block :: "byte list \<Rightarrow> sha_state \<Rightarrow> sha_state" where
  "sha_block blk st = sha_add st (fold (sha_round (schedule (block_words blk))) [0..<64] st)"

definition sha256 :: "byte list \<Rightarrow> sha_state" where
  "sha256 m =
     (let p = sha_pad m
      in fold (\<lambda>i. sha_block (take 64 (drop (64 * i) p))) [0..<length p div 64] sha_init)"

definition hex32 :: "u32 \<Rightarrow> string" where
  "hex32 x = map (\<lambda>i. ''0123456789abcdef'' ! (unat (drop_bit (4 * (7 - i)) x) mod 16)) [0..<8]"

fun hex_state :: "sha_state \<Rightarrow> string" where
  "hex_state (a, b, c, d, e, f, g, h) =
     hex32 a @ hex32 b @ hex32 c @ hex32 d @ hex32 e @ hex32 f @ hex32 g @ hex32 h"

definition sha256_hex :: "string \<Rightarrow> string" where
  "sha256_hex s = hex_state (sha256 (utf8 s))"

subsection \<open>Decimal numbers in template literals\<close>

fun show_nat :: "nat \<Rightarrow> string" where
  "show_nat n =
     (if n < 10 then [''0123456789'' ! n]
      else show_nat (n div 10) @ [''0123456789'' ! (n mod 10)])"

declare show_nat.simps [simp del]

subsection \<open>The store operations\<close>

text \<open>
  \<open>.eq('source_id', id).order('fetched_at', {ascending: false}).limit(1).single()\<close>:
  the row of the source with the greatest fetch time, \<open>null\<close> when there is none (or when
  the query fails). Among equal times the store may answer any; the model takes the row
  inserted last.
\<close>

fun newest :: "snapshot list \<Rightarrow> snapshot option" where
  "newest [] = None"
| "newest (r # rs) =
     (case newest rs of
        None \<Rightarrow> Some r
      | Some r' \<Rightarrow> if fetched_at r \<le> fetched_at r' then Some r' else Some r)"

definition select_latest :: "src_env \<Rightarrow> world \<Rightarrow> string \<Rightarrow> snapshot option" where
  "select_latest env w sid =
     (if select_fails env then None
      else newest (filter (\<lambda>r. snap_source_id r = sid) (snapshots w)))"

definition make_row :: "string \<Rightarrow> nat \<Rightarrow> snapshot_values \<Rightarrow> snapshot" where
  "make_row i t v =
     \<lparr>snap_id = i, snap_source_id = source_id v, snap_html = raw_html v,
      snap_hash = raw_hash v, snap_status = fetch_status v,
      snap_error = error_message v, snap_http = http_status v, fetched_at = t\<rparr>"

text \<open>
  \<open>supabase.from('snapshots').insert(v)\<close>. The result is the inserted row, as
  \<open>.select().single()\<close> returns it, or \<open>None\<close> for \<open>data = null\<close>.
\<close>

definition insert_snapshot :: "db_reply \<Rightarrow> snapshot_values \<Rightarrow> world \<Rightarrow> snapshot option \<times> world" where
  "insert_snapshot answer v w =
     (let w1 = log_call (InsertSnapshot v) w in
      case answer of
        DbError e \<Rightarrow> (None, w1)
      | DbInserted i t \<Rightarrow>
          (Some (make_row i t v), w1\<lparr>snapshots := snapshots w1 @ [make_row i t v]\<rparr>))"

definition insert_change_event :: "db_reply \<Rightarrow> change_event_values \<Rightarrow> world \<Rightarrow> world" where
  "insert_change_event answer v w =
     (let w1 = log_call (InsertChangeEvent v) w in
      case answer of
        DbError e \<Rightarrow> w1
      | DbInserted i t \<Rightarrow>
          w1\<lparr>change_events := change_events w1 @ [\<lparr>ev_id = i, ev_values = v, detected_at = t\<rparr>]\<rparr>)"

text \<open>\<open>saveSnapshot\<close>: the insert, its result dropped.\<close>

definition saveSnapshot ::
  "src_env \<Rightarrow> string \<Rightarrow> string \<Rightarrow> string \<Rightarrow> string \<Rightarrow> string option \<Rightarrow> nat option \<Rightarrow> world \<Rightarrow> world" where
  "saveSnapshot env sourceId html hash st errorMsg httpStatus w =
     snd (insert_snapshot (error_insert_answer env)
            \<lparr>source_id = sourceId, raw_html = html, raw_hash = hash, fetch_status = st,
             error_message = errorMsg, http_status = httpStatus\<rparr> w)"

subsection \<open>analyzeDiff\<close>

definition build_request :: "source \<Rightarrow> string \<Rightarrow> string \<Rightarrow> analysis_request" where
  "build_request s oldHtml newHtml =
     \<lparr>req_name = src_name s, req_url = src_url s,
      req_old_length = length oldHtml, req_new_length = length newHtml,
      req_new_content = take 15000 newHtml,
      req_previous_content = (if oldHtml \<noteq> [] then Some (take 10000 oldHtml) else None)\<rparr>"

text \<open>The text of the user message, as the template literal joins it.\<close>

definition prompt_text :: "analysis_request \<Rightarrow> string" where
  \<open>prompt_text r =
     ''You are analyzing a change to a cosmetics regulatory source.\<newline>\<newline>Source: ''
     @ req_name r @ ''\<newline>URL: '' @ req_url r
     @ ''\<newline>\<newline>Your task: Analyze what changed and extract key information.\<newline>\<newline>Previous content length: ''
     @ show_nat (req_old_length r) @ '' characters\<newline>New content length: ''
     @ show_nat (req_new_length r) @ '' characters\<newline>\<newline>NEW CONTENT:\<newline>''
     @ req_new_content r @ ''\<newline>\<newline>''
     @ (case req_previous_content r of
          Some p \<Rightarrow> ''PREVIOUS CONTENT (for comparison):\<newline>'' @ p
        | None \<Rightarrow> ''No previous content available (first fetch).'')
     @ ''\<newline>\<newline>Analyze the change and respond in JSON format with these fields:\<newline>{\<newline>''
     @ ''  "summary": "Plain English summary (2-3 sentences) of what changed and why it matters",\<newline>''
     @ ''  "tags": ["array", "of", "relevant", "tags"], // e.g., "labeling", "ingredient-ban", "reporting-deadline"\<newline>''
     @ ''  "status": "draft|proposal|final|guidance|unknown", // document status if determinable\<newline>''
     @ ''  "effectiveDate": "YYYY-MM-DD or null", // when this matters, if stated\<newline>''
     @ ''  "needsReview": true|false, // true if high-impact, uncertain, or requires expert review\<newline>''
     @ ''  "whoAffected": "Brief note on who this impacts (manufacturers, indie brands, retailers, etc.)"\<newline>''
     @ ''}\<newline>\<newline>Focus on regulatory substance: new requirements, deadline changes, banned ingredients, labeling rules, reporting criteria.\<newline>''
     @ ''Ignore minor formatting, typo fixes, or navigation changes unless they indicate something substantive.''\<close>

text \<open>The object returned from the \<open>catch\<close> block.\<close>

definition degraded :: analysis_result where
  "degraded =
     \<lparr>summary = JStr ''Change detected. LLM analysis failed - manual review required.'',
      tags = JArr [JStr ''analysis-error''],
      status = JStr ''unknown'',
      effectiveDate = JNull,
      needsReview = True\<rparr>"

text \<open>The object returned from the \<open>try\<close> block, for a parsed value that is not \<open>null\<close>.\<close>

definition parsed_result :: "json \<Rightarrow> analysis_result" where
  "parsed_result analysis =
     \<lparr>summary = js_or (member analysis ''summary'') (JStr ''Change detected, analysis incomplete''),
      tags = js_or (member analysis ''tags'') (JArr []),
      status = js_or (member analysis ''status'') (JStr ''unknown''),
      effectiveDate = js_or (member analysis ''effectiveDate'') JNull,
      needsReview = (member analysis ''needsReview'' \<noteq> Some (JBool False))\<rparr>"

text \<open>\<open>completion.choices[0].message.content || '{}'\<close>\<close>

definition content_or_braces :: "string option \<Rightarrow> string" where
  "content_or_braces content =
     (case content of None \<Rightarrow> ''{}'' | Some c \<Rightarrow> if c \<noteq> [] then c else ''{}'')"

text \<open>
  The \<open>try\<close> block of \<open>analyzeDiff\<close> and its \<open>catch\<close>, for an answer of the
  service. Reading \<open>analysis.summary\<close> of a parsed \<open>null\<close> throws a TypeError, which
  the \<open>catch\<close> block receives like any other exception.
\<close>

definition try_analysis :: "(string \<Rightarrow> string + json) \<Rightarrow> llm_reply \<Rightarrow> analysis_result" where
  "try_analysis JSON_parse answer =
     (case answer of
        LlmThrows e \<Rightarrow> degraded
      | LlmCompletion content \<Rightarrow>
          (case JSON_parse (content_or_braces content) of
             Inl e \<Rightarrow> degraded
           | Inr JNull \<Rightarrow> degraded
           | Inr analysis \<Rightarrow> parsed_result analysis))"

text \<open>\<open>analyzeDiff\<close>: the prompt is built, the service is called once, the answer is normalised.\<close>

definition analyzeDiff ::
  "(string \<Rightarrow> string + json) \<Rightarrow> src_env \<Rightarrow> source \<Rightarrow> string \<Rightarrow> string \<Rightarrow> world
     \<Rightarrow> analysis_result \<times> world" where
  "analyzeDiff JSON_parse env s oldHtml newHtml w =
     (try_analysis JSON_parse (llm_answer env),
      log_call (CreateCompletion (build_request s oldHtml newHtml)) w)"

subsection \<open>checkSource\<close>

text \<open>\<open>response.ok\<close>: the status is in the range 200 to 299.\<close>

definition response_ok :: "nat \<Rightarrow> bool" where
  "response_ok st = (200 \<le> st \<and> st \<le> 299)"

text \<open>The message of the TypeError that \<open>newSnapshot.id\<close> throws when \<open>newSnapshot\<close> is \<open>null\<close>.\<close>

definition null_id_message :: string where
  "null_id_message = ''Cannot read properties of null (reading 'id')''"

text \<open>
  The \<open>try\<close> block of \<open>checkSource\<close>: \<open>Inl msg\<close> is an exception with that message,
  \<open>Inr r\<close> a returned report entry.
\<close>

definition checkSource_try ::
  "(string \<Rightarrow> string + json) \<Rightarrow> src_env \<Rightarrow> source \<Rightarrow> world
     \<Rightarrow> (string + source_result) \<times> world" where
  "checkSource_try JSON_parse env s w =
     (let w1 = log_call (FetchUrl (src_url s)) w in
      case fetch_answer env of
        FetchThrows msg \<Rightarrow> (Inl msg, w1)
      | FetchResponse st body \<Rightarrow>
          if \<not> response_ok st then
            (Inr \<lparr>res_source = src_name s, res_status = ''error'', res_httpStatus = Some st,
                  res_summary = None, res_error = None\<rparr>,
             saveSnapshot env (src_id s) '''' '''' ''error'' (Some (''HTTP '' @ show_nat st)) (Some st) w1)
          else
            (case body of
               TextThrows msg \<Rightarrow> (Inl msg, w1)
             | TextOk rawHtml \<Rightarrow>
                 (let rawHash = sha256_hex rawHtml;
                      lastSnapshot = select_latest env w1 (src_id s);
                      w2 = log_call (SelectLatestSnapshot (src_id s)) w1;
                      (newSnapshot, w3) =
                         insert_snapshot (snapshot_insert_answer env)
                           \<lparr>source_id = src_id s, raw_html = rawHtml, raw_hash = rawHash,
                            fetch_status = ''success'', error_message = None,
                            http_status = Some st\<rparr> w2
                  in
                  if (case lastSnapshot of None \<Rightarrow> False | Some l \<Rightarrow> snap_hash l = rawHash) then
                    (Inr \<lparr>res_source = src_name s, res_status = ''unchanged'', res_httpStatus = None,
                          res_summary = None, res_error = None\<rparr>, w3)
                  else
                    (let (analysis, w4) =
                           analyzeDiff JSON_parse env s
                             (case lastSnapshot of None \<Rightarrow> '''' | Some l \<Rightarrow> snap_html l) rawHtml w3
                     in
                     case newSnapshot of
                       None \<Rightarrow> (Inl null_id_message, w4)
                     | Some n \<Rightarrow>
                         (Inr \<lparr>res_source = src_name s, res_status = ''changed'', res_httpStatus = None,
                               res_summary = Some (summary analysis), res_error = None\<rparr>,
                          insert_change_event (event_insert_answer env)
                            \<lparr>ev_source_id = src_id s,
                             snapshot_before_id =
                               (case lastSnapshot of
                                  None \<Rightarrow> None
                                | Some l \<Rightarrow> if snap_id l \<noteq> [] then Some (snap_id l) else None),
                             snapshot_after_id = snap_id n,
                             change_summary = summary analysis,
                             ev_tags = tags analysis,
                             ev_status = status analysis,
                             effective_date = effectiveDate analysis,
                             needs_review = needsReview analysis\<rparr> w4)))))"

text \<open>\<open>checkSource\<close>: the \<open>try\<close> block and its \<open>catch\<close>.\<close>

definition checkSource ::
  "(string \<Rightarrow> string + json) \<Rightarrow> src_env \<Rightarrow> source \<Rightarrow> world \<Rightarrow> source_result \<times> world" where
  "checkSource JSON_parse env s w =
     (case checkSource_try JSON_parse env s w of
        (Inr r, w') \<Rightarrow> (r, w')
      | (Inl msg, w') \<Rightarrow>
          (\<lparr>res_source = src_name s, res_status = ''error'', res_httpStatus = None,
            res_summary = None, res_error = Some msg\<rparr>,
           saveSnapshot env (src_id s) '''' '''' ''error'' (Some msg) None w'))"

subsection \<open>handler\<close>

record request =
  authorization :: "string option"

datatype body =
    PlainText string
  | RunReport bool string "source_result list"
  | FailureReport bool string

record response =
  resp_status :: nat
  resp_body :: body

text \<open>
  What one run meets: the configured secret (\<open>None\<close> when the variable is not set),
  the answer to the listing of the sources (\<open>Some msg\<close> is its error), the clock read for
  the report, and the answers met by the source processed at each position.
\<close>

record run_env =
  CRON_SECRET :: "string option"
  list_error :: "string option"
  now_iso :: string
  source_env :: "nat \<Rightarrow> src_env"

text \<open>\<open>`Bearer ${process.env.CRON_SECRET}`\<close>: an unset variable prints as \<open>undefined\<close>.\<close>

definition expected_header :: "run_env \<Rightarrow> string" where
  "expected_header E =
     ''Bearer '' @ (case CRON_SECRET E of None \<Rightarrow> ''undefined'' | Some k \<Rightarrow> k)"

text \<open>\<open>.from('sources').select('*').eq('is_active', true)\<close>\<close>

definition active_sources :: "world \<Rightarrow> source list" where
  "active_sources w = map fst (filter snd (sources w))"

text \<open>The \<open>for\<close> loop of \<open>handler\<close>; \<open>i\<close> is the position of the next source.\<close>

fun check_loop ::
  "(string \<Rightarrow> string + json) \<Rightarrow> (nat \<Rightarrow> src_env) \<Rightarrow> nat \<Rightarrow> source list
     \<Rightarrow> source_result list \<Rightarrow> world \<Rightarrow> source_result list \<times> world" where
  "check_loop JSON_parse envs i [] results w = (results, w)"
| "check_loop JSON_parse envs i (s # rest) results w =
     (let (result, w') = checkSource JSON_parse (envs i) s w
      in check_loop JSON_parse envs (Suc i) rest (results @ [result]) w')"

definition handler ::
  "(string \<Rightarrow> string + json) \<Rightarrow> run_env \<Rightarrow> request \<Rightarrow> world \<Rightarrow> response \<times> world" where
  "handler JSON_parse E req w =
     (if authorization req \<noteq> Some (expected_header E) then
        (\<lparr>resp_status = 401, resp_body = PlainText ''Unauthorized''\<rparr>, w)
      else
        (let w1 = log_call ListActiveSources w in
         case list_error E of
           Some msg \<Rightarrow> (\<lparr>resp_status = 500, resp_body = FailureReport False msg\<rparr>, w1)
         | None \<Rightarrow>
             (let (results, w2) = check_loop JSON_parse (source_env E) 0 (active_sources w1) [] w1
              in (\<lparr>resp_status = 200, resp_body = RunReport True (now_iso E) results\<rparr>, w2))))"

subsection \<open>Reading the log\<close>

text \<open>The calls made between two worlds, and the calls of each kind among them.\<close>

definition new_calls :: "world \<Rightarrow> world \<Rightarrow> call list" where
  "new_calls w w' = drop (length (calls w)) (calls w')"

definition fetched_urls :: "call list \<Rightarrow> string list" where
  "fetched_urls cs = concat (map (\<lambda>c. case c of FetchUrl u \<Rightarrow> [u] | _ \<Rightarrow> []) cs)"

definition snapshot_inserts :: "call list \<Rightarrow> snapshot_values list" where
  "snapshot_inserts cs = concat (map (\<lambda>c. case c of InsertSnapshot v \<Rightarrow> [v] | _ \<Rightarrow> []) cs)"

definition analysis_requests :: "call list \<Rightarrow> analysis_request list" where
  "analysis_requests cs = concat (map (\<lambda>c. case c of CreateCompletion q \<Rightarrow> [q] | _ \<Rightarrow> []) cs)"

definition event_inserts :: "call list \<Rightarrow> change_event_values list" where
  "event_inserts cs = concat (map (\<lambda>c. case c of InsertChangeEvent v \<Rightarrow> [v] | _ \<Rightarrow> []) cs)"

text \<open>The entries of a run report; a response of another kind has none.\<close>

definition report_results :: "response \<Rightarrow> source_result list" where
  "report_results resp = (case resp_body resp of RunReport ok ts results \<Rightarrow> results | _ \<Rightarrow> [])"

subsection \<open>Sample runs\<close>

text \<open>
  Concrete sources, stores and answers, on which the theorems below are instantiated.
  \<open>sample_parse\<close> stands for \<open>JSON.parse\<close>: it knows the text of the empty object, the
  only text the samples give it, and rejects every other text.
\<close>

definition sample_parse :: "string \<Rightarrow> string + json" where
  "sample_parse t = (if t = ''{}'' then Inr (JObj []) else Inl ''Unexpected token'')"

definition fda :: source where
  "fda = \<lparr>src_id = ''src-1'', src_name = ''FDA Cosmetics'',
          src_url = ''https://www.fda.gov/cosmetics'', source_type = ''federal''\<rparr>"

definition prop65 :: source where
  "prop65 = \<lparr>src_id = ''src-2'', src_name = ''California Prop 65'',
             src_url = ''https://oehha.ca.gov/proposition-65'', source_type = ''state''\<rparr>"

definition retired :: source where
  "retired = \<lparr>src_id = ''src-3'', src_name = ''Old bulletin'',
              src_url = ''https://example.org/bulletin'', source_type = ''state''\<rparr>"

definition sample_env :: "fetch_reply \<Rightarrow> llm_reply \<Rightarrow> src_env" where
  "sample_env f a =
     \<lparr>fetch_answer = f, select_fails = False,
      snapshot_insert_answer = DbInserted ''snap-new'' 20,
      error_insert_answer = DbInserted ''snap-err'' 20,
      llm_answer = a,
      event_insert_answer = DbInserted ''event-new'' 21\<rparr>"

text \<open>The same answers, from a store that refuses the snapshot of the fetched page.\<close>

definition refusing_env :: "fetch_reply \<Rightarrow> llm_reply \<Rightarrow> src_env" where
  "refusing_env f a = (sample_env f a)\<lparr>snapshot_insert_answer := DbError ''connection refused''\<rparr>"

definition fresh_world :: world where
  "fresh_world =
     \<lparr>sources = [(fda, True), (retired, False), (prop65, True)],
      snapshots = [], change_events = [], calls = []\<rparr>"

text \<open>The store after one successful fetch of the page \<open>v1\<close> of the first source.\<close>

definition seen_world :: world where
  "seen_world =
     fresh_world\<lparr>snapshots :=
       [\<lparr>snap_id = ''snap-1'', snap_source_id = ''src-1'', snap_html = ''v1'',
         snap_hash = sha256_hex ''v1'', snap_status = ''success'', snap_error = None,
         snap_http = Some 200, fetched_at = 10\<rparr>]\<rparr>"

text \<open>The store after a later fetch of that source has failed with status 500.\<close>

definition failed_world :: world where
  "failed_world =
     seen_world\<lparr>snapshots := snapshots seen_world @
       [\<lparr>snap_id = ''snap-2'', snap_source_id = ''src-1'', snap_html = [],
         snap_hash = [], snap_status = ''error'', snap_error = Some ''HTTP 500'',
         snap_http = Some 500, fetched_at = 11\<rparr>]\<rparr>"

definition sample_run_env :: run_env where
  "sample_run_env =
     \<lparr>CRON_SECRET = Some ''s3cret'', list_error = None,
      now_iso = ''2025-01-15T17:00:00.000Z'',
      source_env = (\<lambda>i. if i = 0 then sample_env (FetchThrows ''fetch failed'') (LlmCompletion None)
                         else sample_env (FetchResponse 200 (TextOk ''v1'')) (LlmCompletion None))\<rparr>"

text \<open>A store holding a snapshot imported from an archive, with a fingerprint of another kind.\<close>

definition archive_world :: world where
  "archive_world =
     fresh_world\<lparr>snapshots :=
       [\<lparr>snap_id = ''snap-0'', snap_source_id = ''src-1'',
         snap_html = replicate 10001 CHR ''b'', snap_hash = ''imported'',
         snap_status = ''success'', snap_error = None, snap_http = Some 200,
         fetched_at = 5\<rparr>]\<rparr>"

text \<open>Runs of one source.\<close>

definition same_page_run :: "source_result \<times> world" where
  "same_page_run =
     checkSource sample_parse
       (sample_env (FetchResponse 200 (TextOk ''v1'')) (LlmCompletion None)) fda seen_world"

definition new_page_run :: "source_result \<times> world" where
  "new_page_run =
     checkSource sample_parse
       (sample_env (FetchResponse 200 (TextOk ''v2'')) (LlmCompletion None)) fda failed_world"

definition first_run :: "source_result \<times> world" where
  "first_run =
     checkSource sample_parse
       (sample_env (FetchResponse 200 (TextOk ''v1'')) (LlmCompletion None)) fda fresh_world"


definition unreachable_run :: "source_result \<times> world" where
  "unreachable_run =
     checkSource sample_parse
       (sample_env (FetchThrows ''fetch failed'') (LlmCompletion None)) fda seen_world"

definition http500_run :: "source_result \<times> world" where
  "http500_run =
     checkSource sample_parse
       (sample_env (FetchResponse 500 (TextOk ''Internal Server Error'')) (LlmCompletion None))
       fda seen_world"

definition recovered_run :: "source_result \<times> world" where
  "recovered_run =
     checkSource sample_parse
       (sample_env (FetchResponse 200 (TextOk ''v1'')) (LlmCompletion None)) fda failed_world"

definition long_page_run :: "source_result \<times> world" where
  "long_page_run =
     checkSource sample_parse
       (sample_env (FetchResponse 200 (TextOk (replicate 15001 CHR ''a''))) (LlmCompletion None))
       fda archive_world"

definition unstored_same_run :: "source_result \<times> world" where
  "unstored_same_run =
     checkSource sample_parse
       (refusing_env (FetchResponse 200 (TextOk ''v1'')) (LlmCompletion None)) fda seen_world"

definition unstored_first_run :: "source_result \<times> world" where
  "unstored_first_run =
     checkSource sample_parse
       (refusing_env (FetchResponse 200 (TextOk ''v1'')) (LlmCompletion None)) fda fresh_world"

text \<open>Runs of the handler.\<close>

definition daily_run :: "response \<times> world" where
  "daily_run =
     handler sample_parse sample_run_env \<lparr>authorization = Some ''Bearer s3cret''\<rparr> fresh_world"

definition forged_run :: "response \<times> world" where
  "forged_run =
     handler sample_parse sample_run_env \<lparr>authorization = Some ''Bearer guess''\<rparr> seen_world"

section \<open>Properties\<close>

subsection \<open>Fingerprints, store operations and the paths of a run\<close>

lemma length_hex32: "length (hex32 x) = 8"
  by (simp add: hex32_def)

lemma length_hex_state: "length (hex_state st) = 64"
  by (induction st rule: hex_state.induct) (simp add: length_hex32)

lemma length_sha256_hex: "length (sha256_hex s) = 64"
  by (simp add: sha256_hex_def length_hex_state)

lemma sha256_hex_not_empty: "sha256_hex s \<noteq> []"
  using length_sha256_hex [of s] by auto

lemma not_a_fingerprint: "length h \<noteq> 64 \<Longrightarrow> h \<noteq> sha256_hex s"
  by (auto simp: length_sha256_hex)

lemma select_latest_calls: "select_latest env (w\<lparr>calls := cs\<rparr>) sid = select_latest env w sid"
  by (simp add: select_latest_def)

lemma insert_snapshot_accepted:
  "insert_snapshot (DbInserted i t) v w =
     (Some (make_row i t v),
      w\<lparr>calls := calls w @ [InsertSnapshot v], snapshots := snapshots w @ [make_row i t v]\<rparr>)"
  by (simp add: insert_snapshot_def log_call_def)

lemma insert_snapshot_refused:
  "insert_snapshot (DbError e) v w = (None, w\<lparr>calls := calls w @ [InsertSnapshot v]\<rparr>)"
  by (simp add: insert_snapshot_def log_call_def)

lemma insert_change_event_accepted:
  "insert_change_event (DbInserted i t) v w =
     w\<lparr>calls := calls w @ [InsertChangeEvent v],
       change_events := change_events w @ [\<lparr>ev_id = i, ev_values = v, detected_at = t\<rparr>]\<rparr>"
  by (simp add: insert_change_event_def log_call_def)

lemma insert_change_event_refused:
  "insert_change_event (DbError e) v w = w\<lparr>calls := calls w @ [InsertChangeEvent v]\<rparr>"
  by (simp add: insert_change_event_def log_call_def)

lemma checkSource_unchanged:
  assumes "fetch_answer env = FetchResponse st (TextOk rawHtml)" "response_ok st"
    and "select_latest env w (src_id s) = Some prior"
    and "snap_hash prior = sha256_hex rawHtml"
  shows "checkSource JSON_parse env s w =
     (\<lparr>res_source = src_name s, res_status = ''unchanged'', res_httpStatus = None,
       res_summary = None, res_error = None\<rparr>,
      snd (insert_snapshot (snapshot_insert_answer env)
             \<lparr>source_id = src_id s, raw_html = rawHtml, raw_hash = sha256_hex rawHtml,
              fetch_status = ''success'', error_message = None, http_status = Some st\<rparr>
             (w\<lparr>calls := calls w @ [FetchUrl (src_url s), SelectLatestSnapshot (src_id s)]\<rparr>)))"
  using assms
  by (simp add: checkSource_def checkSource_try_def Let_def select_latest_calls log_call_def case_prod_beta)

lemma checkSource_changed:
  assumes "fetch_answer env = FetchResponse st (TextOk rawHtml)" "response_ok st"
    and "select_latest env w (src_id s) = prior"
    and "\<forall>p. prior = Some p \<longrightarrow> snap_hash p \<noteq> sha256_hex rawHtml"
    and "snapshot_insert_answer env = DbInserted nid t"
  shows "checkSource JSON_parse env s w =
     (let oldHtml = (case prior of None \<Rightarrow> [] | Some l \<Rightarrow> snap_html l);
          v = \<lparr>source_id = src_id s, raw_html = rawHtml, raw_hash = sha256_hex rawHtml,
              fetch_status = ''success'', error_message = None, http_status = Some st\<rparr>;
          analysis = try_analysis JSON_parse (llm_answer env)
      in (\<lparr>res_source = src_name s, res_status = ''changed'', res_httpStatus = None,
           res_summary = Some (summary analysis), res_error = None\<rparr>,
          insert_change_event (event_insert_answer env)
            \<lparr>ev_source_id = src_id s,
             snapshot_before_id =
               (case prior of None \<Rightarrow> None
                | Some l \<Rightarrow> if snap_id l \<noteq> [] then Some (snap_id l) else None),
             snapshot_after_id = nid,
             change_summary = summary analysis, ev_tags = tags analysis,
             ev_status = status analysis, effective_date = effectiveDate analysis,
             needs_review = needsReview analysis\<rparr>
            (w\<lparr>snapshots := snapshots w @ [make_row nid t v],
               calls := calls w @ [FetchUrl (src_url s), SelectLatestSnapshot (src_id s),
                                   InsertSnapshot v, CreateCompletion (build_request s oldHtml rawHtml)]\<rparr>)))"
  using assms
  by (cases prior)
     (simp_all add: checkSource_def checkSource_try_def Let_def select_latest_calls
        insert_snapshot_accepted analyzeDiff_def log_call_def make_row_def)

lemma saveSnapshot_calls:
  "calls (saveSnapshot env sid html hash st msg http w) =
     calls w @ [InsertSnapshot \<lparr>source_id = sid, raw_html = html, raw_hash = hash, fetch_status = st,
                                error_message = msg, http_status = http\<rparr>]"
  by (cases "error_insert_answer env")
     (simp_all add: saveSnapshot_def insert_snapshot_accepted insert_snapshot_refused)

lemma saveSnapshot_change_events:
  "change_events (saveSnapshot env sid html hash st msg http w) = change_events w"
  by (cases "error_insert_answer env")
     (simp_all add: saveSnapshot_def insert_snapshot_accepted insert_snapshot_refused)

lemma saveSnapshot_accepted:
  "error_insert_answer env = DbInserted i t \<Longrightarrow>
   snapshots (saveSnapshot env sid html hash st msg http w) =
     snapshots w @ [\<lparr>snap_id = i, snap_source_id = sid, snap_html = html, snap_hash = hash,
                      snap_status = st, snap_error = msg, snap_http = http, fetched_at = t\<rparr>]"
  by (simp add: saveSnapshot_def insert_snapshot_accepted make_row_def)

lemma saveSnapshot_refused:
  "error_insert_answer env = DbError e \<Longrightarrow>
   snapshots (saveSnapshot env sid html hash st msg http w) = snapshots w"
  by (simp add: saveSnapshot_def insert_snapshot_refused)

lemma checkSource_fetch_throws:
  assumes "fetch_answer env = FetchThrows msg"
  shows "checkSource JSON_parse env s w =
     (\<lparr>res_source = src_name s, res_status = ''error'', res_httpStatus = None,
       res_summary = None, res_error = Some msg\<rparr>,
      saveSnapshot env (src_id s) [] [] ''error'' (Some msg) None
        (w\<lparr>calls := calls w @ [FetchUrl (src_url s)]\<rparr>))"
  using assms by (simp add: checkSource_def checkSource_try_def Let_def log_call_def)

lemma checkSource_text_throws:
  assumes "fetch_answer env = FetchResponse st (TextThrows msg)" "response_ok st"
  shows "checkSource JSON_parse env s w =
     (\<lparr>res_source = src_name s, res_status = ''error'', res_httpStatus = None,
       res_summary = None, res_error = Some msg\<rparr>,
      saveSnapshot env (src_id s) [] [] ''error'' (Some msg) None
        (w\<lparr>calls := calls w @ [FetchUrl (src_url s)]\<rparr>))"
  using assms by (simp add: checkSource_def checkSource_try_def Let_def log_call_def)

lemma checkSource_http_failure:
  assumes "fetch_answer env = FetchResponse st body" "\<not> response_ok st"
  shows "checkSource JSON_parse env s w =
     (\<lparr>res_source = src_name s, res_status = ''error'', res_httpStatus = Some st,
       res_summary = None, res_error = None\<rparr>,
      saveSnapshot env (src_id s) [] [] ''error'' (Some (''HTTP '' @ show_nat st)) (Some st)
        (w\<lparr>calls := calls w @ [FetchUrl (src_url s)]\<rparr>))"
  using assms by (simp add: checkSource_def checkSource_try_def Let_def log_call_def)

lemma checkSource_changed_unstored:
  assumes "fetch_answer env = FetchResponse st (TextOk rawHtml)" "response_ok st"
    and "select_latest env w (src_id s) = prior"
    and "\<forall>p. prior = Some p \<longrightarrow> snap_hash p \<noteq> sha256_hex rawHtml"
    and "snapshot_insert_answer env = DbError e"
  shows "checkSource JSON_parse env s w =
     (\<lparr>res_source = src_name s, res_status = ''error'', res_httpStatus = None,
       res_summary = None, res_error = Some null_id_message\<rparr>,
      saveSnapshot env (src_id s) [] [] ''error'' (Some null_id_message) None
        (w\<lparr>calls := calls w @ [FetchUrl (src_url s), SelectLatestSnapshot (src_id s),
               InsertSnapshot \<lparr>source_id = src_id s, raw_html = rawHtml,
                               raw_hash = sha256_hex rawHtml, fetch_status = ''success'',
                               error_message = None, http_status = Some st\<rparr>,
               CreateCompletion
                 (build_request s (case prior of None \<Rightarrow> [] | Some l \<Rightarrow> snap_html l) rawHtml)]\<rparr>))"
  using assms
  by (cases prior)
     (simp_all add: checkSource_def checkSource_try_def Let_def select_latest_calls
        insert_snapshot_refused analyzeDiff_def log_call_def)

lemma new_calls_append: "calls w' = calls w @ cs \<Longrightarrow> new_calls w w' = cs"
  by (simp add: new_calls_def)

lemmas log_readers = fetched_urls_def snapshot_inserts_def analysis_requests_def event_inserts_def

lemma checkSource_thrown:
  "checkSource_try JSON_parse env s w = (Inl msg, w1) \<Longrightarrow>
   fst (checkSource JSON_parse env s w) =
     \<lparr>res_source = src_name s, res_status = ''error'', res_httpStatus = None,
      res_summary = None, res_error = Some msg\<rparr>"
  by (simp add: checkSource_def)

lemma checkSource_try_fetch_throws:
  "fetch_answer env = FetchThrows msg \<Longrightarrow>
   checkSource_try JSON_parse env s w = (Inl msg, w\<lparr>calls := calls w @ [FetchUrl (src_url s)]\<rparr>)"
  by (simp add: checkSource_try_def Let_def log_call_def)

lemma checkSource_try_text_throws:
  "fetch_answer env = FetchResponse st (TextThrows msg) \<Longrightarrow> response_ok st \<Longrightarrow>
   checkSource_try JSON_parse env s w = (Inl msg, w\<lparr>calls := calls w @ [FetchUrl (src_url s)]\<rparr>)"
  by (simp add: checkSource_try_def Let_def log_call_def)

lemma checkSource_calls:
  "\<exists>cs. calls (snd (checkSource JSON_parse env s w)) = calls w @ FetchUrl (src_url s) # cs
        \<and> fetched_urls cs = []"
  by (auto simp: checkSource_def checkSource_try_def saveSnapshot_def insert_snapshot_def
        insert_change_event_def analyzeDiff_def log_call_def Let_def case_prod_beta fetched_urls_def
      split: fetch_reply.splits text_reply.splits db_reply.splits option.splits)

lemma checkSource_source: "res_source (fst (checkSource JSON_parse env s w)) = src_name s"
  by (auto simp: checkSource_def checkSource_try_def saveSnapshot_def insert_snapshot_def
        insert_change_event_def analyzeDiff_def log_call_def Let_def case_prod_beta
      split: fetch_reply.splits text_reply.splits db_reply.splits option.splits)

lemma checkSource_requests:
  assumes "q \<in> set (analysis_requests (new_calls w (snd (checkSource JSON_parse env s w))))"
  shows "\<exists>st rawHtml. fetch_answer env = FetchResponse st (TextOk rawHtml) \<and> response_ok st
           \<and> q = build_request s (case select_latest env w (src_id s) of None \<Rightarrow> [] | Some l \<Rightarrow> snap_html l) rawHtml"
  using assms
  by (auto simp: checkSource_def checkSource_try_def saveSnapshot_def insert_snapshot_def
        insert_change_event_def analyzeDiff_def log_call_def Let_def case_prod_beta
        analysis_requests_def new_calls_def select_latest_calls
      split: fetch_reply.splits text_reply.splits db_reply.splits option.splits if_splits)

lemma fetched_urls_append: "fetched_urls (xs @ ys) = fetched_urls xs @ fetched_urls ys"
  by (simp add: fetched_urls_def)

lemma check_loop_report:
  "check_loop JSON_parse envs i srcs acc w = (rs, w') \<Longrightarrow>
   \<exists>more cs. rs = acc @ more \<and> length more = length srcs
      \<and> map res_source more = map src_name srcs
      \<and> calls w' = calls w @ cs \<and> fetched_urls cs = map src_url srcs
      \<and> (\<forall>k < length srcs. \<exists>wk. more ! k = fst (checkSource JSON_parse (envs (i + k)) (srcs ! k) wk))"
proof (induction srcs arbitrary: i acc w rs w')
  case Nil
  then show ?case by simp (simp add: fetched_urls_def)
next
  case (Cons s rest)
  obtain r w1 where step: "checkSource JSON_parse (envs i) s w = (r, w1)"
    by (cases "checkSource JSON_parse (envs i) s w")
  with Cons.prems have "check_loop JSON_parse envs (Suc i) rest (acc @ [r]) w1 = (rs, w')"
    by simp
  from Cons.IH [OF this] obtain more cs where
    rs: "rs = (acc @ [r]) @ more" and len: "length more = length rest" and
    names: "map res_source more = map src_name rest" and
    cs: "calls w' = calls w1 @ cs" and urls: "fetched_urls cs = map src_url rest" and
    each: "\<forall>k < length rest. \<exists>wk. more ! k = fst (checkSource JSON_parse (envs (Suc i + k)) (rest ! k) wk)"
    by blast
  from checkSource_calls [of JSON_parse "envs i" s w] step obtain cs1 where
    cs1: "calls w1 = calls w @ FetchUrl (src_url s) # cs1" and none: "fetched_urls cs1 = []"
    by auto
  have name: "res_source r = src_name s"
    using checkSource_source [of JSON_parse "envs i" s w] step by simp
  have entry: "\<exists>wk. (r # more) ! k = fst (checkSource JSON_parse (envs (i + k)) ((s # rest) ! k) wk)"
    if "k < length (s # rest)" for k
  proof (cases k)
    case 0
    with step show ?thesis by (auto intro: exI [of _ w])
  next
    case (Suc j)
    with that each show ?thesis by simp
  qed
  have "fetched_urls (FetchUrl (src_url s) # cs1 @ cs) = map src_url (s # rest)"
    using none urls fetched_urls_append [of "FetchUrl (src_url s) # cs1" cs]
    by (simp add: fetched_urls_def)
  with rs len names cs cs1 name entry show ?case
    by (intro exI [of _ "r # more"] exI [of _ "FetchUrl (src_url s) # cs1 @ cs"]) simp
qed

lemma check_loop_worlds:
  "check_loop JSON_parse envs i srcs acc w = (rs, w') \<Longrightarrow>
   \<exists>ws. length ws = Suc (length srcs) \<and> ws ! 0 = w \<and> ws ! length srcs = w'
      \<and> (\<forall>k < length srcs.
            checkSource JSON_parse (envs (i + k)) (srcs ! k) (ws ! k) =
              (rs ! (length acc + k), ws ! Suc k))"
proof (induction srcs arbitrary: i acc w rs w')
  case Nil
  then show ?case
    by (intro exI [of _ "[w]"]) simp
next
  case (Cons s rest)
  obtain r w1 where step: "checkSource JSON_parse (envs i) s w = (r, w1)"
    by (cases "checkSource JSON_parse (envs i) s w")
  with Cons.prems have loop: "check_loop JSON_parse envs (Suc i) rest (acc @ [r]) w1 = (rs, w')"
    by simp
  from Cons.IH [OF loop] obtain ws where
    len: "length ws = Suc (length rest)" and start: "ws ! 0 = w1" and
    stop: "ws ! length rest = w'" and
    chain: "\<forall>k < length rest.
              checkSource JSON_parse (envs (Suc i + k)) (rest ! k) (ws ! k) =
                (rs ! (length (acc @ [r]) + k), ws ! Suc k)"
    by blast
  from check_loop_report [OF loop] have here: "rs ! length acc = r"
    by (auto simp: nth_append)
  have link: "checkSource JSON_parse (envs (i + k)) ((s # rest) ! k) ((w # ws) ! k) =
                (rs ! (length acc + k), (w # ws) ! Suc k)"
    if "k < length (s # rest)" for k
  proof (cases k)
    case 0
    with step here start show ?thesis by simp
  next
    case (Suc j)
    with that chain show ?thesis by simp
  qed
  from len stop link show ?case
    by (intro exI [of _ "w # ws"]) simp
qed

lemmas sample_defs = sample_env_def refusing_env_def fresh_world_def seen_world_def failed_world_def
  archive_world_def fda_def prop65_def retired_def

subsection \<open>A source seen before\<close>

text \<open>
  Claim C1. The page of a source was fetched and read, and the source has a most recent
  snapshot (with a key, as every stored row has), and the store accepts the writes of the
  run. If the fingerprint of that snapshot is the SHA-256 fingerprint of the page, the
  entry says \<open>unchanged\<close>, no change event is written and none is sent to the store. If
  the fingerprints differ, the entry says \<open>changed\<close>, the snapshot of the page is stored
  under its new key, and exactly one change event is sent and stored: its \<open>after\<close> is
  the new snapshot's key, its \<open>before\<close> the prior snapshot's key.
\<close>

theorem prior_snapshot_decides_change:
  assumes fetch: "fetch_answer env = FetchResponse st (TextOk rawHtml)" "response_ok st"
    and prior: "select_latest env w (src_id s) = Some prior"
    and key: "snap_id prior \<noteq> []"
    and ins: "snapshot_insert_answer env = DbInserted nid t"
    and ev: "event_insert_answer env = DbInserted eid et"
    and run: "checkSource JSON_parse env s w = (r, w')"
  shows "(snap_hash prior = sha256_hex rawHtml \<longrightarrow>
            res_status r = ''unchanged''
            \<and> change_events w' = change_events w
            \<and> event_inserts (new_calls w w') = [])
       \<and> (snap_hash prior \<noteq> sha256_hex rawHtml \<longrightarrow>
            res_status r = ''changed''
            \<and> (\<exists>n. snapshots w' = snapshots w @ [n] \<and> snap_id n = nid
                  \<and> snap_hash n = sha256_hex rawHtml)
            \<and> (\<exists>e. change_events w' = change_events w @ [e]
                  \<and> event_inserts (new_calls w w') = [ev_values e]
                  \<and> snapshot_after_id (ev_values e) = nid
                  \<and> snapshot_before_id (ev_values e) = Some (snap_id prior)))"
proof (cases "snap_hash prior = sha256_hex rawHtml")
  case True
  from checkSource_unchanged [OF fetch prior True, of JSON_parse] run ins
  show ?thesis
    using True by (auto simp: insert_snapshot_accepted new_calls_def log_readers)
next
  case False
  then have differ: "\<forall>p. Some prior = Some p \<longrightarrow> snap_hash p \<noteq> sha256_hex rawHtml"
    by simp
  from checkSource_changed [OF fetch prior differ ins, of JSON_parse] run ev key
  show ?thesis
    using False
    by (auto simp: Let_def insert_change_event_accepted make_row_def new_calls_def log_readers)
qed

text \<open>The theorem on a sample run.\<close>

theorem prior_snapshot_decides_change_witness:
  "res_status (fst same_page_run) = ''unchanged''
   \<and> change_events (snd same_page_run) = []
   \<and> event_inserts (new_calls seen_world (snd same_page_run)) = []
   \<and> res_status (fst new_page_run) = ''changed''
   \<and> map (\<lambda>e. (snapshot_before_id (ev_values e), snapshot_after_id (ev_values e)))
         (change_events (snd new_page_run)) = [(Some ''snap-2'', ''snap-new'')]"
proof -
  let ?same = "sample_env (FetchResponse 200 (TextOk ''v1'')) (LlmCompletion None)"
  let ?new = "sample_env (FetchResponse 200 (TextOk ''v2'')) (LlmCompletion None)"
  let ?p1 = "\<lparr>snap_id = ''snap-1'', snap_source_id = ''src-1'', snap_html = ''v1'',
         snap_hash = sha256_hex ''v1'', snap_status = ''success'', snap_error = None,
         snap_http = Some 200, fetched_at = 10\<rparr>"
  let ?p2 = "\<lparr>snap_id = ''snap-2'', snap_source_id = ''src-1'', snap_html = [],
         snap_hash = [], snap_status = ''error'', snap_error = Some ''HTTP 500'',
         snap_http = Some 500, fetched_at = 11\<rparr>"
  have ok: "response_ok 200"
    by (simp add: response_ok_def)
  have same:
    "fetch_answer ?same = FetchResponse 200 (TextOk ''v1'')"
    "select_latest ?same seen_world (src_id fda) = Some ?p1"
    "snap_id ?p1 \<noteq> []"
    "snapshot_insert_answer ?same = DbInserted ''snap-new'' 20"
    "event_insert_answer ?same = DbInserted ''event-new'' 21"
    "checkSource sample_parse ?same fda seen_world = (fst same_page_run, snd same_page_run)"
    by (simp_all add: sample_defs select_latest_def same_page_run_def)
  have new:
    "fetch_answer ?new = FetchResponse 200 (TextOk ''v2'')"
    "select_latest ?new failed_world (src_id fda) = Some ?p2"
    "snap_id ?p2 \<noteq> []"
    "snapshot_insert_answer ?new = DbInserted ''snap-new'' 20"
    "event_insert_answer ?new = DbInserted ''event-new'' 21"
    "checkSource sample_parse ?new fda failed_world = (fst new_page_run, snd new_page_run)"
    by (simp_all add: sample_defs select_latest_def new_page_run_def)
  from prior_snapshot_decides_change [OF same(1) ok same(2-6)]
       prior_snapshot_decides_change [OF new(1) ok new(2-6)]
  show ?thesis
    by (auto simp: sha256_hex_not_empty [symmetric] sample_defs)
qed

subsection \<open>A source seen for the first time\<close>

text \<open>
  Claim C2. The page of a source was fetched and read, the store holds no snapshot of the
  source, and the store accepts the writes of the run. Then the entry says \<open>changed\<close>,
  the snapshot of the page is stored under its new key, and exactly one change event is
  sent and stored: its \<open>before\<close> is \<open>null\<close>, its \<open>after\<close> the new snapshot's key.
\<close>

theorem first_observation_is_a_change:
  assumes fetch: "fetch_answer env = FetchResponse st (TextOk rawHtml)" "response_ok st"
    and first: "\<forall>row \<in> set (snapshots w). snap_source_id row \<noteq> src_id s"
    and ins: "snapshot_insert_answer env = DbInserted nid t"
    and ev: "event_insert_answer env = DbInserted eid et"
    and run: "checkSource JSON_parse env s w = (r, w')"
  shows "res_status r = ''changed''
       \<and> (\<exists>n. snapshots w' = snapshots w @ [n] \<and> snap_id n = nid)
       \<and> (\<exists>e. change_events w' = change_events w @ [e]
             \<and> event_inserts (new_calls w w') = [ev_values e]
             \<and> snapshot_before_id (ev_values e) = None
             \<and> snapshot_after_id (ev_values e) = nid)"
proof -
  from first have "filter (\<lambda>row. snap_source_id row = src_id s) (snapshots w) = []"
    by (simp add: filter_empty_conv)
  then have none: "select_latest env w (src_id s) = None"
    by (simp add: select_latest_def)
  have differ: "\<forall>p. (None :: snapshot option) = Some p \<longrightarrow> snap_hash p \<noteq> sha256_hex rawHtml"
    by simp
  from checkSource_changed [OF fetch none differ ins, of JSON_parse] run ev
  show ?thesis
    by (auto simp: Let_def insert_change_event_accepted make_row_def new_calls_def log_readers)
qed

text \<open>The theorem on a sample run.\<close>

theorem first_observation_is_a_change_witness:
  "res_status (fst first_run) = ''changed''
   \<and> map snap_id (snapshots (snd first_run)) = [''snap-new'']
   \<and> map (\<lambda>e. (snapshot_before_id (ev_values e), snapshot_after_id (ev_values e)))
         (change_events (snd first_run)) = [(None, ''snap-new'')]"
proof -
  let ?env = "sample_env (FetchResponse 200 (TextOk ''v1'')) (LlmCompletion None)"
  have ok: "response_ok 200"
    by (simp add: response_ok_def)
  have first: "\<forall>row \<in> set (snapshots fresh_world). snap_source_id row \<noteq> src_id fda"
    by (simp add: fresh_world_def)
  have given:
    "fetch_answer ?env = FetchResponse 200 (TextOk ''v1'')"
    "snapshot_insert_answer ?env = DbInserted ''snap-new'' 20"
    "event_insert_answer ?env = DbInserted ''event-new'' 21"
    "checkSource sample_parse ?env fda fresh_world = (fst first_run, snd first_run)"
    by (simp_all add: sample_defs first_run_def)
  from first_observation_is_a_change [OF given(1) ok first given(2-4)]
  show ?thesis
    by (auto simp: fresh_world_def)
qed

subsection \<open>A failed analysis\<close>



subsection \<open>One snapshot for each run\<close>

text \<open>
  Claim C4. In every run of \<open>checkSource\<close> on a store that accepts the snapshot writes,
  exactly one row is added to \<open>snapshots\<close>, and it belongs to the source: the success
  row of the page when the fetch answered a success status and the page was read; an
  error row carrying the status when the fetch answered another status; an error row
  carrying the message when a step of the run threw.
\<close>

theorem one_snapshot_per_run:
  assumes ins: "snapshot_insert_answer env = DbInserted nid t"
    and err: "error_insert_answer env = DbInserted xid xt"
    and run: "checkSource JSON_parse env s w = (r, w')"
  shows "\<exists>row. snapshots w' = snapshots w @ [row] \<and> snap_source_id row = src_id s
      \<and> (\<forall>st rawHtml. fetch_answer env = FetchResponse st (TextOk rawHtml) \<and> response_ok st \<longrightarrow>
            row = \<lparr>snap_id = nid, snap_source_id = src_id s, snap_html = rawHtml,
                   snap_hash = sha256_hex rawHtml, snap_status = ''success'', snap_error = None,
                   snap_http = Some st, fetched_at = t\<rparr>)
      \<and> (\<forall>st body. fetch_answer env = FetchResponse st body \<and> \<not> response_ok st \<longrightarrow>
            row = \<lparr>snap_id = xid, snap_source_id = src_id s, snap_html = [], snap_hash = [],
                   snap_status = ''error'', snap_error = Some (''HTTP '' @ show_nat st),
                   snap_http = Some st, fetched_at = xt\<rparr>)
      \<and> (\<forall>msg w1. checkSource_try JSON_parse env s w = (Inl msg, w1) \<longrightarrow>
            row = \<lparr>snap_id = xid, snap_source_id = src_id s, snap_html = [], snap_hash = [],
                   snap_status = ''error'', snap_error = Some msg, snap_http = None,
                   fetched_at = xt\<rparr>)"
proof (cases "fetch_answer env")
  case (FetchThrows msg)
  from checkSource_fetch_throws [OF FetchThrows, of JSON_parse s w] run
       checkSource_try_fetch_throws [OF FetchThrows, of JSON_parse s w]
  show ?thesis
    using FetchThrows by (auto simp: saveSnapshot_accepted [OF err])
next
  case (FetchResponse st body)
  show ?thesis
  proof (cases "response_ok st")
    case False
    from checkSource_http_failure [OF FetchResponse False, of JSON_parse s w] run
         checkSource_thrown [of JSON_parse env s w]
    show ?thesis
      using FetchResponse False by (auto simp: saveSnapshot_accepted [OF err])
  next
    case True
    show ?thesis
    proof (cases body)
      case (TextThrows msg)
      from checkSource_text_throws [OF FetchResponse [unfolded TextThrows] True, of JSON_parse s w] run
           checkSource_try_text_throws [OF FetchResponse [unfolded TextThrows] True, of JSON_parse s w]
      show ?thesis
        using FetchResponse True TextThrows by (auto simp: saveSnapshot_accepted [OF err])
    next
      case (TextOk rawHtml)
      note fetch = FetchResponse [unfolded TextOk]
      show ?thesis
      proof (cases "\<exists>p. select_latest env w (src_id s) = Some p \<and> snap_hash p = sha256_hex rawHtml")
        case True
        then obtain p where p: "select_latest env w (src_id s) = Some p"
            "snap_hash p = sha256_hex rawHtml"
          by blast
        from checkSource_unchanged [OF fetch \<open>response_ok st\<close> p, of JSON_parse] run
             checkSource_thrown [of JSON_parse env s w]
        show ?thesis
          using fetch \<open>response_ok st\<close>
          by (auto simp: ins insert_snapshot_accepted make_row_def)
      next
        case False
        then have differ: "\<forall>p. select_latest env w (src_id s) = Some p \<longrightarrow> snap_hash p \<noteq> sha256_hex rawHtml"
          by blast
        from checkSource_changed [OF fetch \<open>response_ok st\<close> refl differ ins, of JSON_parse] run
             checkSource_thrown [of JSON_parse env s w]
        show ?thesis
          using fetch \<open>response_ok st\<close>
          by (cases "event_insert_answer env")
             (auto simp: Let_def insert_change_event_accepted insert_change_event_refused make_row_def)
      qed
    qed
  qed
qed

text \<open>The theorem on a sample run.\<close>

theorem one_snapshot_per_run_witness:
  "map (\<lambda>row. (snap_id row, snap_status row, snap_error row, snap_http row))
       (snapshots (snd unreachable_run)) =
     [(''snap-1'', ''success'', None, Some 200),
      (''snap-err'', ''error'', Some ''fetch failed'', None)]"
proof -
  let ?env = "sample_env (FetchThrows ''fetch failed'') (LlmCompletion None)"
  have given:
    "snapshot_insert_answer ?env = DbInserted ''snap-new'' 20"
    "error_insert_answer ?env = DbInserted ''snap-err'' 20"
    "checkSource sample_parse ?env fda seen_world = (fst unreachable_run, snd unreachable_run)"
    by (simp_all add: sample_defs unreachable_run_def)
  have thrown: "checkSource_try sample_parse ?env fda seen_world =
      (Inl ''fetch failed'', seen_world\<lparr>calls := calls seen_world @ [FetchUrl (src_url fda)]\<rparr>)"
    by (rule checkSource_try_fetch_throws) (simp add: sample_env_def)
  from one_snapshot_per_run [OF given] thrown
  show ?thesis
    by (auto simp: sample_defs)
qed

subsection \<open>A refused snapshot\<close>

text \<open>
  Claim C5 says that a run whose snapshot the store refuses is aborted and reported as an
  \<open>error\<close>. The code drops the \<open>error\<close> of the insert and goes on with
  \<open>newSnapshot = null\<close>. On the sample store that refuses the snapshot: when the page has
  the fingerprint of the prior snapshot, the run says \<open>unchanged\<close> although the one
  insert it sent stored nothing; when the source is new, the run does end in \<open>error\<close>
  (reading \<open>newSnapshot.id\<close> throws), but only after the analysis was requested.
\<close>

theorem refused_snapshot_goes_unreported:
  "res_status (fst unstored_same_run) = ''unchanged''
   \<and> snapshots (snd unstored_same_run) = snapshots seen_world
   \<and> snapshot_inserts (new_calls seen_world (snd unstored_same_run)) =
       [\<lparr>source_id = ''src-1'', raw_html = ''v1'', raw_hash = sha256_hex ''v1'',
         fetch_status = ''success'', error_message = None, http_status = Some 200\<rparr>]
   \<and> res_status (fst unstored_first_run) = ''error''
   \<and> analysis_requests (new_calls fresh_world (snd unstored_first_run)) =
       [build_request fda [] ''v1'']"
proof -
  let ?env = "refusing_env (FetchResponse 200 (TextOk ''v1'')) (LlmCompletion None)"
  let ?p1 = "\<lparr>snap_id = ''snap-1'', snap_source_id = ''src-1'', snap_html = ''v1'',
         snap_hash = sha256_hex ''v1'', snap_status = ''success'', snap_error = None,
         snap_http = Some 200, fetched_at = 10\<rparr>"
  have ok: "response_ok 200"
    by (simp add: response_ok_def)
  have fetch: "fetch_answer ?env = FetchResponse 200 (TextOk ''v1'')"
    by (simp add: sample_defs)
  have refused: "snapshot_insert_answer ?env = DbError ''connection refused''"
    by (simp add: sample_defs)
  have prior: "select_latest ?env seen_world (src_id fda) = Some ?p1"
    by (simp add: sample_defs select_latest_def)
  have same: "snap_hash ?p1 = sha256_hex ''v1''"
    by simp
  have none: "select_latest ?env fresh_world (src_id fda) = None"
    by (simp add: sample_defs select_latest_def)
  have differ: "\<forall>p. (None :: snapshot option) = Some p \<longrightarrow> snap_hash p \<noteq> sha256_hex ''v1''"
    by simp
  have first: "res_status (fst unstored_same_run) = ''unchanged''
     \<and> snapshots (snd unstored_same_run) = snapshots seen_world
     \<and> snapshot_inserts (new_calls seen_world (snd unstored_same_run)) =
       [\<lparr>source_id = ''src-1'', raw_html = ''v1'', raw_hash = sha256_hex ''v1'',
         fetch_status = ''success'', error_message = None, http_status = Some 200\<rparr>]"
    unfolding unstored_same_run_def checkSource_unchanged [OF fetch ok prior same]
    by (simp add: refused insert_snapshot_refused new_calls_def snapshot_inserts_def fda_def)
  have second: "res_status (fst unstored_first_run) = ''error''
     \<and> analysis_requests (new_calls fresh_world (snd unstored_first_run)) =
       [build_request fda [] ''v1'']"
    unfolding unstored_first_run_def checkSource_changed_unstored [OF fetch ok none differ refused]
    by (simp add: saveSnapshot_calls new_calls_def analysis_requests_def)
  from first second show ?thesis
    by simp
qed

subsection \<open>The run report\<close>

text \<open>
  Claim C6. An authorised run whose listing of the sources succeeds answers 200 with the
  report \<open>{success: true, timestamp, results}\<close>. The results hold one entry for each
  active source, in the order of the listing, and every active source is fetched, once and
  in that order. The run is the chain of the runs of \<open>checkSource\<close>: there are the worlds
  \<open>ws\<close>, from the world after the listing to the world returned, and the source at
  position \<open>k\<close> is processed on the world the sources before it have left, giving entry
  \<open>k\<close> and the next world, whatever happened to the sources before it. When the
  processing of a source throws on that world (for one, when its fetch throws), its entry
  is the \<open>error\<close> entry with the message thrown.
\<close>

theorem run_report_isolates_sources:
  assumes auth: "authorization req = Some (expected_header E)"
    and listed: "list_error E = None"
    and run: "handler JSON_parse E req w = (resp, w')"
  shows "\<exists>results ws.
        resp = \<lparr>resp_status = 200, resp_body = RunReport True (now_iso E) results\<rparr>
      \<and> length results = length (active_sources w)
      \<and> map res_source results = map src_name (active_sources w)
      \<and> fetched_urls (new_calls w w') = map src_url (active_sources w)
      \<and> length ws = Suc (length (active_sources w))
      \<and> ws ! 0 = log_call ListActiveSources w
      \<and> w' = ws ! length (active_sources w)
      \<and> (\<forall>k < length (active_sources w).
            checkSource JSON_parse (source_env E k) (active_sources w ! k) (ws ! k) =
              (results ! k, ws ! Suc k)
            \<and> (\<forall>msg w1. checkSource_try JSON_parse (source_env E k) (active_sources w ! k) (ws ! k) = (Inl msg, w1) \<longrightarrow>
                  results ! k = \<lparr>res_source = src_name (active_sources w ! k), res_status = ''error'',
                                 res_httpStatus = None, res_summary = None, res_error = Some msg\<rparr>))
      \<and> (\<forall>k < length (active_sources w). \<forall>msg.
            fetch_answer (source_env E k) = FetchThrows msg \<longrightarrow>
              results ! k = \<lparr>res_source = src_name (active_sources w ! k), res_status = ''error'',
                             res_httpStatus = None, res_summary = None, res_error = Some msg\<rparr>)"
proof -
  let ?w1 = "log_call ListActiveSources w"
  let ?srcs = "active_sources w"
  have srcs: "active_sources ?w1 = ?srcs"
    by (simp add: active_sources_def log_call_def)
  obtain results w2 where loop: "check_loop JSON_parse (source_env E) 0 ?srcs [] ?w1 = (results, w2)"
    by (cases "check_loop JSON_parse (source_env E) 0 ?srcs [] ?w1")
  with auth listed run srcs have resp: "resp = \<lparr>resp_status = 200, resp_body = RunReport True (now_iso E) results\<rparr>"
    and w': "w' = w2"
    by (auto simp: handler_def Let_def)
  from check_loop_report [OF loop] obtain cs where
    len: "length results = length ?srcs" and
    names: "map res_source results = map src_name ?srcs" and
    cs: "calls w2 = calls ?w1 @ cs" and urls: "fetched_urls cs = map src_url ?srcs"
    by auto
  have log: "fetched_urls (new_calls w w') = map src_url ?srcs"
    using cs urls w' by (simp add: new_calls_def log_call_def fetched_urls_def)
  from check_loop_worlds [OF loop] obtain ws where
    many: "length ws = Suc (length ?srcs)" and start: "ws ! 0 = ?w1" and
    stop: "w' = ws ! length ?srcs" and
    chain: "\<forall>k < length ?srcs.
              checkSource JSON_parse (source_env E k) (?srcs ! k) (ws ! k) = (results ! k, ws ! Suc k)"
    using w' by auto
  have caught: "checkSource JSON_parse (source_env E k) (?srcs ! k) (ws ! k) = (results ! k, ws ! Suc k)
            \<and> (\<forall>msg w1. checkSource_try JSON_parse (source_env E k) (?srcs ! k) (ws ! k) = (Inl msg, w1) \<longrightarrow>
                  results ! k = \<lparr>res_source = src_name (?srcs ! k), res_status = ''error'',
                                 res_httpStatus = None, res_summary = None, res_error = Some msg\<rparr>)"
    if "k < length ?srcs" for k
    using chain that checkSource_thrown [of JSON_parse "source_env E k" "?srcs ! k" "ws ! k"]
    by simp
  have thrown: "results ! k = \<lparr>res_source = src_name (?srcs ! k), res_status = ''error'',
                             res_httpStatus = None, res_summary = None, res_error = Some msg\<rparr>"
    if "k < length ?srcs" "fetch_answer (source_env E k) = FetchThrows msg" for k msg
    using chain that(1) checkSource_fetch_throws [OF that(2), of JSON_parse "?srcs ! k" "ws ! k"]
    by simp
  from resp len names log many start stop caught thrown show ?thesis
    by blast
qed

text \<open>The theorem on a sample run: what is reported, and what is stored.\<close>

theorem run_report_isolates_sources_witness:
  "resp_status (fst daily_run) = 200
   \<and> map res_source (report_results (fst daily_run)) = [''FDA Cosmetics'', ''California Prop 65'']
   \<and> map res_status (report_results (fst daily_run)) = [''error'', ''changed'']
   \<and> report_results (fst daily_run) ! 0 =
       \<lparr>res_source = ''FDA Cosmetics'', res_status = ''error'', res_httpStatus = None,
        res_summary = None, res_error = Some ''fetch failed''\<rparr>
   \<and> fetched_urls (new_calls fresh_world (snd daily_run)) =
       [''https://www.fda.gov/cosmetics'', ''https://oehha.ca.gov/proposition-65'']
   \<and> map snap_id (snapshots (snd daily_run)) = [''snap-err'', ''snap-new'']
   \<and> map snap_source_id (snapshots (snd daily_run)) = [''src-1'', ''src-2'']
   \<and> map snap_status (snapshots (snd daily_run)) = [''error'', ''success'']
   \<and> map ev_id (change_events (snd daily_run)) = [''event-new'']
   \<and> map (\<lambda>e. ev_source_id (ev_values e)) (change_events (snd daily_run)) = [''src-2'']"
proof -
  let ?req = "\<lparr>authorization = Some ''Bearer s3cret''\<rparr>"
  let ?down = "sample_env (FetchThrows ''fetch failed'') (LlmCompletion None)"
  let ?up = "sample_env (FetchResponse 200 (TextOk ''v1'')) (LlmCompletion None)"
  have auth: "authorization ?req = Some (expected_header sample_run_env)"
    by (simp add: expected_header_def sample_run_env_def)
  have listed: "list_error sample_run_env = None"
    by (simp add: sample_run_env_def)
  have run: "handler sample_parse sample_run_env ?req fresh_world = (fst daily_run, snd daily_run)"
    by (simp add: daily_run_def)
  have srcs: "active_sources fresh_world = [fda, prop65]"
    by (simp add: active_sources_def fresh_world_def)
  have envs: "source_env sample_run_env 0 = ?down" "source_env sample_run_env (Suc 0) = ?up"
    by (simp_all add: sample_run_env_def)
  from run_report_isolates_sources [OF auth listed run] obtain results ws where
    resp: "fst daily_run =
             \<lparr>resp_status = 200, resp_body = RunReport True (now_iso sample_run_env) results\<rparr>" and
    names: "map res_source results = map src_name (active_sources fresh_world)" and
    urls: "fetched_urls (new_calls fresh_world (snd daily_run)) = map src_url (active_sources fresh_world)" and
    start: "ws ! 0 = log_call ListActiveSources fresh_world" and
    stop: "snd daily_run = ws ! length (active_sources fresh_world)" and
    chain: "\<forall>k < length (active_sources fresh_world).
              checkSource sample_parse (source_env sample_run_env k) (active_sources fresh_world ! k) (ws ! k) =
                (results ! k, ws ! Suc k)"
    by blast
  from chain srcs envs start have one:
    "checkSource sample_parse ?down fda (log_call ListActiveSources fresh_world) = (results ! 0, ws ! Suc 0)"
    by (auto dest: spec [of _ 0])
  from chain srcs envs have two:
    "checkSource sample_parse ?up prop65 (ws ! Suc 0) = (results ! Suc 0, ws ! Suc (Suc 0))"
    by (auto dest: spec [of _ "Suc 0"])
  have down: "fetch_answer ?down = FetchThrows ''fetch failed''"
    by (simp add: sample_env_def)
  have stored: "error_insert_answer ?down = DbInserted ''snap-err'' 20"
    by (simp add: sample_env_def)
  from one have first: "results ! 0 =
        \<lparr>res_source = ''FDA Cosmetics'', res_status = ''error'', res_httpStatus = None,
         res_summary = None, res_error = Some ''fetch failed''\<rparr>"
    and w1: "ws ! Suc 0 =
        saveSnapshot ?down (src_id fda) [] [] ''error'' (Some ''fetch failed'') None
          ((log_call ListActiveSources fresh_world)
             \<lparr>calls := calls (log_call ListActiveSources fresh_world) @ [FetchUrl (src_url fda)]\<rparr>)"
    by (simp_all add: checkSource_fetch_throws [OF down] fda_def)
  have rows1: "snapshots (ws ! Suc 0) =
      [\<lparr>snap_id = ''snap-err'', snap_source_id = ''src-1'', snap_html = [], snap_hash = [],
        snap_status = ''error'', snap_error = Some ''fetch failed'', snap_http = None,
        fetched_at = 20\<rparr>]"
    and events1: "change_events (ws ! Suc 0) = []"
    by (simp_all add: w1 saveSnapshot_accepted [OF stored] saveSnapshot_change_events
          log_call_def fresh_world_def fda_def)
  have up: "fetch_answer ?up = FetchResponse 200 (TextOk ''v1'')" "response_ok 200"
    by (simp_all add: sample_env_def response_ok_def)
  have none: "select_latest ?up (ws ! Suc 0) (src_id prop65) = None"
    by (simp add: select_latest_def rows1 sample_env_def prop65_def)
  have differ: "\<forall>p. (None :: snapshot option) = Some p \<longrightarrow> snap_hash p \<noteq> sha256_hex ''v1''"
    by simp
  have ins: "snapshot_insert_answer ?up = DbInserted ''snap-new'' 20"
    by (simp add: sample_env_def)
  have ev: "event_insert_answer ?up = DbInserted ''event-new'' 21"
    by (simp add: sample_env_def)
  have ids: "src_id prop65 = ''src-2''"
    by (simp add: prop65_def)
  from two have r2: "results ! Suc 0 = fst (checkSource sample_parse ?up prop65 (ws ! Suc 0))"
    and w2: "ws ! Suc (Suc 0) = snd (checkSource sample_parse ?up prop65 (ws ! Suc 0))"
    by simp_all
  have second: "res_status (results ! Suc 0) = ''changed''"
    and rows2: "map snap_id (snapshots (ws ! Suc (Suc 0))) = [''snap-err'', ''snap-new'']"
      "map snap_source_id (snapshots (ws ! Suc (Suc 0))) = [''src-1'', ''src-2'']"
      "map snap_status (snapshots (ws ! Suc (Suc 0))) = [''error'', ''success'']"
    and events2: "map ev_id (change_events (ws ! Suc (Suc 0))) = [''event-new'']"
      "map (\<lambda>e. ev_source_id (ev_values e)) (change_events (ws ! Suc (Suc 0))) = [''src-2'']"
    by (simp_all add: r2 w2 checkSource_changed [OF up none differ ins] Let_def ev ids
          insert_change_event_accepted make_row_def rows1 events1)
  from names srcs have two_entries: "length results = Suc (Suc 0)"
    using length_map [of res_source results] by simp
  then have results: "results = [results ! 0, results ! Suc 0]"
    by (cases results; cases "tl results") auto
  have statuses: "map res_status results = [''error'', ''changed'']"
    using first second by (subst results) simp
  from resp names urls stop srcs first statuses rows2 events2
  show ?thesis
    by (simp add: report_results_def fda_def prop65_def)
qed

subsection \<open>A page server that answers an error status\<close>

text \<open>
  Claim C7. When the fetch answers a status outside 200 to 299, the entry of the source is
  \<open>error\<close> with that status; the run makes two calls, the fetch and the insert of one
  error snapshot carrying the status; no analysis is requested, no change event is sent
  or stored; and when the store accepts the insert, exactly that row is added.
\<close>

theorem http_failure_recorded_without_analysis:
  assumes fetch: "fetch_answer env = FetchResponse st body" "\<not> response_ok st"
    and run: "checkSource JSON_parse env s w = (r, w')"
  shows "r = \<lparr>res_source = src_name s, res_status = ''error'', res_httpStatus = Some st,
              res_summary = None, res_error = None\<rparr>
       \<and> new_calls w w' =
            [FetchUrl (src_url s),
             InsertSnapshot \<lparr>source_id = src_id s, raw_html = [], raw_hash = [],
               fetch_status = ''error'', error_message = Some (''HTTP '' @ show_nat st),
               http_status = Some st\<rparr>]
       \<and> analysis_requests (new_calls w w') = []
       \<and> event_inserts (new_calls w w') = []
       \<and> change_events w' = change_events w
       \<and> (\<forall>i t. error_insert_answer env = DbInserted i t \<longrightarrow>
             snapshots w' = snapshots w @
               [\<lparr>snap_id = i, snap_source_id = src_id s, snap_html = [], snap_hash = [],
                 snap_status = ''error'', snap_error = Some (''HTTP '' @ show_nat st),
                 snap_http = Some st, fetched_at = t\<rparr>])"
  using checkSource_http_failure [OF fetch, of JSON_parse s w] run
  by (auto simp: saveSnapshot_calls saveSnapshot_change_events saveSnapshot_accepted
        new_calls_def log_readers)

text \<open>The theorem on a sample run.\<close>

theorem http_failure_recorded_without_analysis_witness:
  "fst http500_run =
     \<lparr>res_source = ''FDA Cosmetics'', res_status = ''error'', res_httpStatus = Some 500,
      res_summary = None, res_error = None\<rparr>
   \<and> analysis_requests (new_calls seen_world (snd http500_run)) = []
   \<and> change_events (snd http500_run) = []
   \<and> map (\<lambda>row. (snap_id row, snap_status row, snap_error row, snap_http row))
       (snapshots (snd http500_run)) =
     [(''snap-1'', ''success'', None, Some 200),
      (''snap-err'', ''error'', Some ''HTTP 500'', Some 500)]"
proof -
  let ?env = "sample_env (FetchResponse 500 (TextOk ''Internal Server Error'')) (LlmCompletion None)"
  have given:
    "fetch_answer ?env = FetchResponse 500 (TextOk ''Internal Server Error'')"
    "\<not> response_ok 500"
    "checkSource sample_parse ?env fda seen_world = (fst http500_run, snd http500_run)"
    by (simp_all add: sample_defs response_ok_def http500_run_def)
  have stored: "error_insert_answer ?env = DbInserted ''snap-err'' 20"
    by (simp add: sample_env_def)
  have digits: "show_nat 500 = ''500''"
    by (simp add: show_nat.simps)
  from http_failure_recorded_without_analysis [OF given] stored digits
  show ?thesis
    by (auto simp: sample_defs)
qed

subsection \<open>An unauthorised request\<close>

text \<open>
  Claim C8. A request whose \<open>authorization\<close> header is not \<open>Bearer \<close> followed by the
  configured secret is answered 401 \<open>Unauthorized\<close>, and the world is returned as it
  was: no table is touched and no call (listing, fetch, insert, analysis) is made.
\<close>

theorem unauthorized_request_does_nothing:
  assumes "authorization req \<noteq> Some (expected_header E)"
  shows "handler JSON_parse E req w =
           (\<lparr>resp_status = 401, resp_body = PlainText ''Unauthorized''\<rparr>, w)"
  using assms by (simp add: handler_def)

text \<open>The theorem on a sample run.\<close>

theorem unauthorized_request_does_nothing_witness:
  "forged_run = (\<lparr>resp_status = 401, resp_body = PlainText ''Unauthorized''\<rparr>, seen_world)"
proof -
  have "authorization \<lparr>authorization = Some ''Bearer guess''\<rparr> \<noteq> Some (expected_header sample_run_env)"
    by (simp add: expected_header_def sample_run_env_def)
  from unauthorized_request_does_nothing [OF this, of sample_parse seen_world]
  show ?thesis
    by (simp add: forged_run_def)
qed

subsection \<open>The content sent for analysis\<close>

text \<open>
  Claim C9. Every analysis request sent during a run of \<open>checkSource\<close> carries, as new
  content, the first 15000 code units of the page fetched: a prefix of it, of length at
  most 15000. The previous content it carries, if any, is the first 10000 code units of
  the content of the source's most recent snapshot: a prefix of it, of length at most
  10000.
\<close>

theorem analysis_request_is_truncated:
  assumes run: "checkSource JSON_parse env s w = (r, w')"
    and q: "q \<in> set (analysis_requests (new_calls w w'))"
  shows "\<exists>st rawHtml. fetch_answer env = FetchResponse st (TextOk rawHtml)
        \<and> req_new_content q = take 15000 rawHtml
        \<and> prefix (req_new_content q) rawHtml
        \<and> length (req_new_content q) \<le> 15000
        \<and> (\<forall>p. req_previous_content q = Some p \<longrightarrow>
              (\<exists>l. select_latest env w (src_id s) = Some l
                 \<and> p = take 10000 (snap_html l)
                 \<and> prefix p (snap_html l)
                 \<and> length p \<le> 10000))"
proof -
  from run q have "q \<in> set (analysis_requests (new_calls w (snd (checkSource JSON_parse env s w))))"
    by simp
  from checkSource_requests [OF this] obtain st rawHtml where
    fetch: "fetch_answer env = FetchResponse st (TextOk rawHtml)" and
    built: "q = build_request s (case select_latest env w (src_id s) of None \<Rightarrow> [] | Some l \<Rightarrow> snap_html l) rawHtml"
    by blast
  have new: "req_new_content q = take 15000 rawHtml"
    by (simp add: built build_request_def)
  have old: "\<exists>l. select_latest env w (src_id s) = Some l \<and> p = take 10000 (snap_html l)
               \<and> prefix p (snap_html l) \<and> length p \<le> 10000"
    if "req_previous_content q = Some p" for p
    using that
    by (cases "select_latest env w (src_id s)")
       (auto simp: built build_request_def take_is_prefix split: if_splits)
  from fetch new old show ?thesis
    by (auto simp: take_is_prefix)
qed

text \<open>The theorem on a sample run.\<close>

theorem analysis_request_is_truncated_witness:
  "analysis_requests (new_calls archive_world (snd long_page_run)) =
     [build_request fda (replicate 10001 CHR ''b'') (replicate 15001 CHR ''a'')]
   \<and> req_new_content (build_request fda (replicate 10001 CHR ''b'') (replicate 15001 CHR ''a'')) =
       replicate 15000 CHR ''a''
   \<and> req_previous_content (build_request fda (replicate 10001 CHR ''b'') (replicate 15001 CHR ''a'')) =
       Some (replicate 10000 CHR ''b'')"
proof -
  let ?env = "sample_env (FetchResponse 200 (TextOk (replicate 15001 CHR ''a''))) (LlmCompletion None)"
  let ?p0 = "\<lparr>snap_id = ''snap-0'', snap_source_id = ''src-1'',
         snap_html = replicate 10001 CHR ''b'', snap_hash = ''imported'',
         snap_status = ''success'', snap_error = None, snap_http = Some 200,
         fetched_at = 5\<rparr>"
  let ?q = "build_request fda (replicate 10001 CHR ''b'') (replicate 15001 CHR ''a'')"
  have ok: "response_ok 200"
    by (simp add: response_ok_def)
  have fetch: "fetch_answer ?env = FetchResponse 200 (TextOk (replicate 15001 CHR ''a''))"
    by (simp add: sample_env_def)
  have prior: "select_latest ?env archive_world (src_id fda) = Some ?p0"
    by (simp add: sample_defs select_latest_def)
  have differ: "\<forall>p. Some ?p0 = Some p \<longrightarrow> snap_hash p \<noteq> sha256_hex (replicate 15001 CHR ''a'')"
    using not_a_fingerprint [of "''imported''" "replicate 15001 CHR ''a''"] by simp
  have ins: "snapshot_insert_answer ?env = DbInserted ''snap-new'' 20"
    by (simp add: sample_env_def)
  have sent: "analysis_requests (new_calls archive_world (snd long_page_run)) = [?q]"
    unfolding long_page_run_def checkSource_changed [OF fetch ok prior differ ins]
    by (simp add: Let_def sample_env_def insert_change_event_accepted new_calls_def
          analysis_requests_def)
  have run: "checkSource sample_parse ?env fda archive_world = (fst long_page_run, snd long_page_run)"
    by (simp add: long_page_run_def)
  have q: "?q \<in> set (analysis_requests (new_calls archive_world (snd long_page_run)))"
    by (simp add: sent)
  from analysis_request_is_truncated [OF run q] fetch prior
  have "req_new_content ?q = take 15000 (replicate 15001 CHR ''a'')"
    and "\<forall>p. req_previous_content ?q = Some p \<longrightarrow> p = take 10000 (replicate 10001 CHR ''b'')"
    by auto
  moreover have "req_previous_content ?q \<noteq> None"
    by (simp add: build_request_def)
  ultimately show ?thesis
    using sent by auto
qed

subsection \<open>After an error snapshot\<close>

text \<open>
  Claim C10. When the most recent snapshot of a source has the empty fingerprint, as
  error snapshots do, a run that fetches and reads the page (whatever its content) and
  has its writes accepted says \<open>changed\<close> and stores a change event whose \<open>before\<close> is
  the key of that error snapshot: a SHA-256 fingerprint has 64 digits, so it is never
  the empty string.
\<close>

theorem error_snapshot_forces_change:
  assumes fetch: "fetch_answer env = FetchResponse st (TextOk rawHtml)" "response_ok st"
    and prior: "select_latest env w (src_id s) = Some prior"
    and err: "snap_hash prior = []"
    and key: "snap_id prior \<noteq> []"
    and ins: "snapshot_insert_answer env = DbInserted nid t"
    and ev: "event_insert_answer env = DbInserted eid et"
    and run: "checkSource JSON_parse env s w = (r, w')"
  shows "res_status r = ''changed''
       \<and> (\<exists>e. change_events w' = change_events w @ [e]
             \<and> snapshot_before_id (ev_values e) = Some (snap_id prior)
             \<and> snapshot_after_id (ev_values e) = nid)"
proof -
  have differ: "\<forall>p. Some prior = Some p \<longrightarrow> snap_hash p \<noteq> sha256_hex rawHtml"
    using err sha256_hex_not_empty [of rawHtml] by simp
  from checkSource_changed [OF fetch prior differ ins, of JSON_parse] run ev key
  show ?thesis
    by (auto simp: Let_def insert_change_event_accepted)
qed

text \<open>The theorem on a sample run.\<close>

theorem error_snapshot_forces_change_witness:
  "snap_html (hd (snapshots failed_world)) = ''v1''
   \<and> res_status (fst recovered_run) = ''changed''
   \<and> map (\<lambda>e. (snapshot_before_id (ev_values e), snapshot_after_id (ev_values e)))
         (change_events (snd recovered_run)) = [(Some ''snap-2'', ''snap-new'')]"
proof -
  let ?env = "sample_env (FetchResponse 200 (TextOk ''v1'')) (LlmCompletion None)"
  let ?p2 = "\<lparr>snap_id = ''snap-2'', snap_source_id = ''src-1'', snap_html = [],
         snap_hash = [], snap_status = ''error'', snap_error = Some ''HTTP 500'',
         snap_http = Some 500, fetched_at = 11\<rparr>"
  have ok: "response_ok 200"
    by (simp add: response_ok_def)
  have given:
    "fetch_answer ?env = FetchResponse 200 (TextOk ''v1'')"
    "select_latest ?env failed_world (src_id fda) = Some ?p2"
    "snap_hash ?p2 = []"
    "snap_id ?p2 \<noteq> []"
    "snapshot_insert_answer ?env = DbInserted ''snap-new'' 20"
    "event_insert_answer ?env = DbInserted ''event-new'' 21"
    "checkSource sample_parse ?env fda failed_world = (fst recovered_run, snd recovered_run)"
    by (simp_all add: sample_defs select_latest_def recovered_run_def)
  from error_snapshot_forces_change [OF given(1) ok given(2-7)]
  show ?thesis
    by (auto simp: sample_defs)
qed

end
